theory Spec2Isabelle
  imports Main "HOL-Library.Word"
begin

section \<open>The JoinNetwork component\<close>

text \<open>
  A shallow embedding of \<^verbatim>\<open>src/react-app/src/pages/JoinNetwork/index.js\<close>: a React class
  component with the state \<^verbatim>\<open>{urls, url}\<close>, one \<^verbatim>\<open>fetch\<close> of \<^verbatim>\<open>/peers\<close> at mount, one
  \<^verbatim>\<open>fetch\<close> of \<^verbatim>\<open>/joinNetwork\<close> per form submission, and a render function.

  The component is event driven. Its handlers and promise callbacks are the functions
  below, named as in the source; the browser and the server are the environment, which
  picks the next action (an input change, a form submission, the settling of a pending
  fetch).
\<close>

subsection \<open>Values\<close>

text \<open>
  A string of the running program is a sequence of 16-bit code units. \<open>js\<close> gives the
  code units of a literal of the source text.
\<close>

type_synonym code_unit = "16 word"

type_synonym js_string = "code_unit list"

definition js :: "string \<Rightarrow> js_string" where
  "js s = map (\<lambda>c. of_nat (of_char c)) s"

text \<open>
  What \<^verbatim>\<open>res.json()\<close> can deliver: a parsed JSON value. The component never looks inside a
  number, so integers stand for them.
\<close>

datatype json =
    JNull
  | JBool bool
  | JNum int
  | JString js_string
  | JArray "json list"
  | JObject "(js_string \<times> json) list"

text \<open>
  The object literal \<^verbatim>\<open>{url: this.state.url}\<close> of \<^verbatim>\<open>join_network\<close>, the only value the
  component serialises.
\<close>

record join_body =
  url_prop :: js_string

subsection \<open>\<^verbatim>\<open>JSON.stringify\<close> on the request body\<close>

text \<open>
  The platform's \<^verbatim>\<open>JSON.stringify\<close>, on an object with the single string property
  \<^verbatim>\<open>url\<close>: the property name and the value are quoted as ECMAScript's QuoteJSONString
  does, code point by code point. The quotation mark (U+0022) and the backslash (U+005C)
  get a backslash; the control characters below U+0020 get their short escape (b, t, n,
  f, r) or a \<^verbatim>\<open>\uXXXX\<close> escape in lower-case hexadecimal digits; a surrogate code unit
  that is not part of a pair (a leading one followed by a trailing one) gets a
  \<^verbatim>\<open>\uXXXX\<close> escape too; a surrogate pair and every other code unit are copied.
\<close>

definition hexdigit :: "nat \<Rightarrow> code_unit" where
  "hexdigit d = js ''0123456789abcdef'' ! (d mod 16)"

definition UnicodeEscape :: "code_unit \<Rightarrow> js_string" where
  "UnicodeEscape c =
     [0x5C, 0x75, hexdigit (unat c div 4096), hexdigit (unat c div 256),
      hexdigit (unat c div 16), hexdigit (unat c)]"

definition is_leading_surrogate :: "code_unit \<Rightarrow> bool" where
  "is_leading_surrogate c = (0xD800 \<le> c \<and> c \<le> 0xDBFF)"

definition is_trailing_surrogate :: "code_unit \<Rightarrow> bool" where
  "is_trailing_surrogate c = (0xDC00 \<le> c \<and> c \<le> 0xDFFF)"

text \<open>The quotation of a code point that is a single code unit.\<close>

definition quote_code_unit :: "code_unit \<Rightarrow> js_string" where
  "quote_code_unit c =
     (if c = 0x08 then [0x5C, 0x62]
      else if c = 0x09 then [0x5C, 0x74]
      else if c = 0x0A then [0x5C, 0x6E]
      else if c = 0x0C then [0x5C, 0x66]
      else if c = 0x0D then [0x5C, 0x72]
      else if c = 0x22 then [0x5C, 0x22]
      else if c = 0x5C then [0x5C, 0x5C]
      else if c < 0x20 \<or> is_leading_surrogate c \<or> is_trailing_surrogate c
      then UnicodeEscape c
      else [c])"

fun quote_code_points :: "js_string \<Rightarrow> js_string" where
  "quote_code_points [] = []"
| "quote_code_points [c] = quote_code_unit c"
| "quote_code_points (c # d # cs) =
     (if is_leading_surrogate c \<and> is_trailing_surrogate d
      then c # d # quote_code_points cs
      else quote_code_unit c @ quote_code_points (d # cs))"

definition QuoteJSONString :: "js_string \<Rightarrow> js_string" where
  "QuoteJSONString s = [0x22] @ quote_code_points s @ [0x22]"

definition JSON_stringify :: "join_body \<Rightarrow> js_string" where
  "JSON_stringify b =
     js ''{'' @ QuoteJSONString (js ''url'') @ js '':'' @ QuoteJSONString (url_prop b)
     @ js ''}''"

subsection \<open>The component state and its surroundings\<close>

text \<open>\<^verbatim>\<open>this.state\<close>, with the initial value of the class field \<^verbatim>\<open>state\<close>.\<close>

record component_state =
  urls :: json
  url :: js_string

definition initial_state :: component_state where
  "initial_state = \<lparr>urls = JArray [], url = []\<rparr>"

text \<open>
  A call of \<^verbatim>\<open>fetch\<close>: the path and the options object it was given (\<open>http_method\<close> is
  its \<^verbatim>\<open>method\<close> property). The path, the method and the headers are literals of the
  source and are kept as they are written there; the body is computed when the program
  runs.
\<close>

record request =
  path :: string
  http_method :: string
  body :: "js_string option"
  headers :: "(string \<times> string) list"

text \<open>
  How a fetch settles. The promise is rejected (a network error), or it is fulfilled with
  a response; \<^verbatim>\<open>fetch\<close> fulfils it for every HTTP status. \<open>json_body\<close> is what
  \<^verbatim>\<open>res.json()\<close> gives for the response: \<open>None\<close> when the body is not JSON and the promise
  of \<^verbatim>\<open>res.json()\<close> is rejected.
\<close>

record response =
  status :: nat
  json_body :: "json option"

datatype outcome = Rejected | Responded response

definition ok :: "response \<Rightarrow> bool" where
  "ok r = (200 \<le> status r \<and> status r \<le> 299)"

text \<open>
  The submit event that \<^verbatim>\<open>join_network\<close> receives and its promise callback keeps:
  whether \<^verbatim>\<open>preventDefault\<close> has been called on it, and whether the fetch of this
  submission has settled.
\<close>

record submission =
  defaultPrevented :: bool
  settled :: bool

text \<open>
  The component with what surrounds it: \<^verbatim>\<open>this.state\<close>, the text shown in the form's input
  (the \<^verbatim>\<open>Form.Control\<close> gets no \<^verbatim>\<open>value\<close> property, so the DOM owns that text), every
  call of \<^verbatim>\<open>fetch\<close> in order, whether the fetch of \<^verbatim>\<open>/peers\<close> is pending, the form
  submissions in order, and the values written by \<^verbatim>\<open>console.log\<close>.
\<close>

record world =
  state :: component_state
  input_value :: js_string
  fetches :: "request list"
  peers_pending :: bool
  submissions :: "submission list"
  console :: "json list"

definition constructed :: world where
  "constructed =
     \<lparr>state = initial_state, input_value = [], fetches = [], peers_pending = False,
      submissions = [], console = []\<rparr>"

subsection \<open>The methods of the class\<close>

text \<open>\<^verbatim>\<open>this.setState({urls: data})\<close> and \<^verbatim>\<open>this.setState({url: v})\<close>: the given field is
  replaced, the other one kept.\<close>

definition setState_urls :: "json \<Rightarrow> world \<Rightarrow> world" where
  "setState_urls data w = w\<lparr>state := (state w)\<lparr>urls := data\<rparr>\<rparr>"

definition setState_url :: "js_string \<Rightarrow> world \<Rightarrow> world" where
  "setState_url v w = w\<lparr>state := (state w)\<lparr>url := v\<rparr>\<rparr>"

definition peers_request :: request where
  "peers_request = \<lparr>path = ''/peers'', http_method = ''GET'', body = None, headers = []\<rparr>"

text \<open>\<^verbatim>\<open>get_peers\<close>, up to the return of \<^verbatim>\<open>fetch\<close>: the request is issued and is pending.\<close>

definition get_peers :: "world \<Rightarrow> world" where
  "get_peers w = w\<lparr>fetches := fetches w @ [peers_request], peers_pending := True\<rparr>"

text \<open>The second \<^verbatim>\<open>then\<close> callback of \<^verbatim>\<open>get_peers\<close>, run with the parsed body.\<close>

definition get_peers_then :: "json \<Rightarrow> world \<Rightarrow> world" where
  "get_peers_then data w = setState_urls data (w\<lparr>console := console w @ [data]\<rparr>)"

text \<open>
  The promise chain of \<^verbatim>\<open>get_peers\<close> has no rejection handler: a rejected fetch and a
  rejected \<^verbatim>\<open>res.json()\<close> run no callback of the component. The status of the response is
  not read.
\<close>

definition get_peers_settled :: "outcome \<Rightarrow> world \<Rightarrow> world" where
  "get_peers_settled oc w =
     (case oc of
        Rejected \<Rightarrow> w
      | Responded res \<Rightarrow>
          (case json_body res of None \<Rightarrow> w | Some data \<Rightarrow> get_peers_then data w))"

definition join_request :: "js_string \<Rightarrow> request" where
  "join_request v =
     \<lparr>path = ''/joinNetwork'', http_method = ''POST'',
      body = Some (JSON_stringify \<lparr>url_prop = v\<rparr>),
      headers = [(''Content-Type'', ''application/json'')]\<rparr>"

text \<open>
  \<^verbatim>\<open>join_network\<close>, up to its return: the body is built from \<^verbatim>\<open>this.state.url\<close>, the
  request is issued, and the handler returns. Nothing has been called on the event yet.
\<close>

definition join_network :: "world \<Rightarrow> world" where
  "join_network w =
     w\<lparr>fetches := fetches w @ [join_request (url (state w))],
       submissions := submissions w @ [\<lparr>defaultPrevented = False, settled = False\<rparr>]\<rparr>"

text \<open>
  The \<^verbatim>\<open>then\<close> callback of \<^verbatim>\<open>join_network\<close> for the \<open>k\<close>-th submission:
  \<^verbatim>\<open>event.preventDefault()\<close>, then \<^verbatim>\<open>event.target.reset()\<close>, which gives the input its
  default text, the empty string. A form reset fires no change event.
\<close>

definition join_network_then :: "nat \<Rightarrow> world \<Rightarrow> world" where
  "join_network_then k w =
     w\<lparr>submissions := (submissions w)[k := (submissions w ! k)\<lparr>defaultPrevented := True\<rparr>],
       input_value := []\<rparr>"

text \<open>The callback takes the response and does not read it; there is no rejection handler.\<close>

definition join_network_settled :: "nat \<Rightarrow> outcome \<Rightarrow> world \<Rightarrow> world" where
  "join_network_settled k oc w =
     (case oc of Rejected \<Rightarrow> w | Responded res \<Rightarrow> join_network_then k w)"

definition componentDidMount :: "world \<Rightarrow> world" where
  "componentDidMount w = get_peers w"

text \<open>
  The \<^verbatim>\<open>onChange\<close> handler of the input. The edit has put the text \<open>v\<close> into the input;
  the handler stores \<^verbatim>\<open>e.target.value\<close> in the state.
\<close>

definition onChange :: "js_string \<Rightarrow> world \<Rightarrow> world" where
  "onChange v w = setState_url v (w\<lparr>input_value := v\<rparr>)"

subsection \<open>Rendering\<close>

datatype attribute = OnSubmit_join_network | OnChange_setState_url | Type string

datatype vnode =
    Text string
  | Expr json
  | Elem string "attribute list" "vnode list"
  | Nodes "vnode list"

datatype js_error = TypeError

text \<open>
  \<^verbatim>\<open>this.state.urls.map((url) => <p>{url}</p>)\<close>. Only an array has \<^verbatim>\<open>map\<close>; on any other
  value the call throws a TypeError.
\<close>

definition peer_entry :: "json \<Rightarrow> vnode" where
  "peer_entry u = Elem ''p'' [] [Expr u]"

definition peer_entries :: "json \<Rightarrow> js_error + vnode list" where
  "peer_entries us =
     (case us of JArray xs \<Rightarrow> Inr (map peer_entry xs) | _ \<Rightarrow> Inl TypeError)"

definition render :: "component_state \<Rightarrow> js_error + vnode" where
  "render s =
     (case peer_entries (urls s) of
        Inl e \<Rightarrow> Inl e
      | Inr ps \<Rightarrow>
          Inr (Elem ''div'' []
            [Elem ''h1'' [] [Text ''Join Network''],
             Elem ''Form'' [OnSubmit_join_network]
               [Elem ''Form.Group'' []
                  [Elem ''Form.Label'' []
                     [Text ''Please enter an url in the network to join''],
                   Elem ''Form.Control'' [OnChange_setState_url] []],
                Elem ''Button'' [Type ''submit''] [Text ''JOIN'']],
             Elem ''h4'' [] [Text ''Connected Peers''],
             Nodes ps]))"

subsection \<open>Runs of the component\<close>

text \<open>
  What the environment can do next: change the text of the input, submit the form,
  settle the fetch of \<^verbatim>\<open>/peers\<close>, settle the fetch of the \<open>k\<close>-th submission. A fetch
  settles once, and only after it was issued; \<open>step\<close> is \<open>None\<close> for an action that
  cannot happen.
\<close>

datatype action =
    Change js_string
  | Submit
  | PeersSettled outcome
  | JoinSettled nat outcome

fun step :: "action \<Rightarrow> world \<Rightarrow> world option" where
  "step (Change v) w = Some (onChange v w)"
| "step Submit w = Some (join_network w)"
| "step (PeersSettled oc) w =
     (if peers_pending w then Some (get_peers_settled oc (w\<lparr>peers_pending := False\<rparr>))
      else None)"
| "step (JoinSettled k oc) w =
     (if k < length (submissions w) \<and> \<not> settled (submissions w ! k)
      then Some (join_network_settled k oc
             (w\<lparr>submissions := (submissions w)[k := (submissions w ! k)\<lparr>settled := True\<rparr>]\<rparr>))
      else None)"

fun run_from :: "world \<Rightarrow> action list \<Rightarrow> world option" where
  "run_from w [] = Some w"
| "run_from w (a # as) = (case step a w of None \<Rightarrow> None | Some w' \<Rightarrow> run_from w' as)"

text \<open>The component after its first render and \<^verbatim>\<open>componentDidMount\<close>.\<close>

definition mounted :: world where
  "mounted = componentDidMount constructed"

definition run :: "action list \<Rightarrow> world option" where
  "run as = run_from mounted as"

subsection \<open>Notions of the specification\<close>

text \<open>
  The value the input field tracks along a run: the value of the last change event, and
  the starting value \<open>v\<close> while there was none.
\<close>

fun tracked_input :: "js_string \<Rightarrow> action list \<Rightarrow> js_string" where
  "tracked_input v [] = v"
| "tracked_input v (Change v' # as) = tracked_input v' as"
| "tracked_input v (a # as) = tracked_input v as"

definition last_input_value :: "action list \<Rightarrow> js_string" where
  "last_input_value as = tracked_input [] as"

text \<open>
  The values that responses to \<^verbatim>\<open>GET /peers\<close> deliver along a run, in order, and the most
  recent of them, which is the initial empty list while there is none.
\<close>

fun peers_responses :: "action list \<Rightarrow> json list" where
  "peers_responses [] = []"
| "peers_responses (PeersSettled (Responded res) # as) =
     (case json_body res of None \<Rightarrow> [] | Some data \<Rightarrow> [data]) @ peers_responses as"
| "peers_responses (a # as) = peers_responses as"

definition most_recent_response :: "action list \<Rightarrow> json" where
  "most_recent_response as =
     (case peers_responses as of [] \<Rightarrow> JArray [] | d # ds \<Rightarrow> last (d # ds))"

text \<open>What the user is shown: the rendered component and the text in the input.\<close>

definition view :: "world \<Rightarrow> (js_error + vnode) \<times> js_string" where
  "view w = (render (state w), input_value w)"

text \<open>Whether an action is an input change event.\<close>

fun is_change :: "action \<Rightarrow> bool" where
  "is_change (Change v) = True"
| "is_change a = False"

text \<open>
  The JSON text of a request body, read back. \<open>read_string\<close> reads a JSON string after its
  opening quotation mark, up to the closing one, and gives the string it denotes and the
  rest of the text: a backslash starts an escape (one of the eight short ones, or \<^verbatim>\<open>u\<close>
  and four hexadecimal digits), a control character is not allowed, every other code
  unit stands for itself. \<open>read_url_object\<close> reads the text of an object whose only member
  is \<^verbatim>\<open>url\<close>, written without white space, and gives the value of that member.
\<close>

definition hexvalue :: "code_unit \<Rightarrow> nat option" where
  "hexvalue c =
     (if 0x30 \<le> c \<and> c \<le> 0x39 then Some (unat c - 48)
      else if 0x61 \<le> c \<and> c \<le> 0x66 then Some (unat c - 87)
      else if 0x41 \<le> c \<and> c \<le> 0x46 then Some (unat c - 55)
      else None)"

definition unescape :: "code_unit \<Rightarrow> code_unit option" where
  "unescape e =
     (if e = 0x22 then Some 0x22
      else if e = 0x5C then Some 0x5C
      else if e = 0x2F then Some 0x2F
      else if e = 0x62 then Some 0x08
      else if e = 0x66 then Some 0x0C
      else if e = 0x6E then Some 0x0A
      else if e = 0x72 then Some 0x0D
      else if e = 0x74 then Some 0x09
      else None)"

fun read_hex4 :: "js_string \<Rightarrow> code_unit option" where
  "read_hex4 [h3, h2, h1, h0] =
     (case (hexvalue h3, hexvalue h2, hexvalue h1, hexvalue h0) of
        (Some a, Some b, Some c, Some d) \<Rightarrow> Some (of_nat (((a * 16 + b) * 16 + c) * 16 + d))
      | _ \<Rightarrow> None)"
| "read_hex4 hs = None"

fun read_string :: "js_string \<Rightarrow> (js_string \<times> js_string) option" where
  "read_string [] = None"
| "read_string (c # cs) =
     (if c = 0x22 then Some ([], cs)
      else if c = 0x5C then
        (case cs of
           [] \<Rightarrow> None
         | e # es \<Rightarrow>
             if e = 0x75 then
               (case read_hex4 (take 4 es) of
                  None \<Rightarrow> None
                | Some x \<Rightarrow> map_option (apfst ((#) x)) (read_string (drop 4 es)))
             else
               (case unescape e of
                  None \<Rightarrow> None
                | Some x \<Rightarrow> map_option (apfst ((#) x)) (read_string es)))
      else if c < 0x20 then None
      else map_option (apfst ((#) c)) (read_string cs))"

definition read_url_object :: "js_string \<Rightarrow> js_string option" where
  "read_url_object t =
     (if take 8 t = js ''{\"url\":\"'' then
        (case read_string (drop 8 t) of
           None \<Rightarrow> None
         | Some (v, rest) \<Rightarrow> if rest = js ''}'' then Some v else None)
      else None)"

text \<open>A code unit that \<^verbatim>\<open>JSON.stringify\<close> copies wherever it stands in a string.\<close>

definition plain_code_unit :: "code_unit \<Rightarrow> bool" where
  "plain_code_unit c =
     (\<not> c < 0x20 \<and> c \<noteq> 0x22 \<and> c \<noteq> 0x5C \<and> \<not> is_leading_surrogate c
      \<and> \<not> is_trailing_surrogate c)"

section \<open>Properties\<close>

subsection \<open>The JSON text of the request body\<close>

lemma hexvalue_digit:
  assumes "k < 16"
  shows "hexvalue (js ''0123456789abcdef'' ! k) = Some k"
proof -
  from assms consider "k = 0" | "k = 1" | "k = 2" | "k = 3" | "k = 4" | "k = 5" | "k = 6" | "k = 7"
    | "k = 8" | "k = 9" | "k = 10" | "k = 11" | "k = 12" | "k = 13" | "k = 14" | "k = 15"
    by atomize_elim presburger
  then show ?thesis
    by cases (simp_all add: js_def hexvalue_def)
qed

lemma hexvalue_hexdigit: "hexvalue (hexdigit d) = Some (d mod 16)"
  by (simp add: hexdigit_def hexvalue_digit)


lemma hex_digits_value:
  assumes "n < 65536"
  shows "(((n div 4096) mod 16 * 16 + (n div 256) mod 16) * 16 + (n div 16) mod 16) * 16
           + n mod 16 = (n::nat)"
proof -
  define a where "a = n div 16"
  define b where "b = a div 16"
  define c where "c = b div 16"
  have b: "n div 256 = b" and c: "n div 4096 = c"
    by (simp_all add: a_def b_def c_def div_mult2_eq)
  from assms c have "c < 16" by simp
  then have c16: "c mod 16 = c" by simp
  have "n = a * 16 + n mod 16" by (simp add: a_def)
  moreover have "a = b * 16 + a mod 16" by (simp add: b_def)
  moreover have "b = c * 16 + b mod 16" by (simp add: c_def)
  ultimately have "((c * 16 + b mod 16) * 16 + a mod 16) * 16 + n mod 16 = n"
    by simp
  then show ?thesis by (simp add: b c c16 a_def [symmetric])
qed

lemma unat_code_unit: "unat (c::code_unit) < 65536"
  using unsigned_less[of c, where ?'a = nat] by simp


lemma read_hex4_UnicodeEscape:
  "read_hex4 [hexdigit (unat c div 4096), hexdigit (unat c div 256),
      hexdigit (unat c div 16), hexdigit (unat c)] = Some (c::code_unit)"
proof -
  let ?n = "unat c"
  have "read_hex4 [hexdigit (?n div 4096), hexdigit (?n div 256), hexdigit (?n div 16),
      hexdigit ?n] =
    Some (of_nat ((((?n div 4096) mod 16 * 16 + (?n div 256) mod 16) * 16
      + (?n div 16) mod 16) * 16 + ?n mod 16))"
    by (simp only: read_hex4.simps hexvalue_hexdigit prod.case option.case)
  also have "\<dots> = Some (of_nat ?n)"
    by (simp only: hex_digits_value[OF unat_code_unit])
  finally show ?thesis by simp
qed

lemma read_string_UnicodeEscape:
  "read_string (UnicodeEscape c @ t) = map_option (apfst ((#) c)) (read_string t)"
  using read_hex4_UnicodeEscape[of c] by (simp add: UnicodeEscape_def)


lemma read_string_copy:
  "c \<noteq> 0x22 \<Longrightarrow> c \<noteq> 0x5C \<Longrightarrow> \<not> c < 0x20 \<Longrightarrow>
   read_string (c # t) = map_option (apfst ((#) c)) (read_string t)"
  by simp

lemma read_string_escape:
  "e \<noteq> 0x75 \<Longrightarrow> unescape e = Some x \<Longrightarrow>
   read_string (0x5C # e # t) = map_option (apfst ((#) x)) (read_string t)"
  by simp

lemma read_string_quote_code_unit:
  "read_string (quote_code_unit c @ t) = map_option (apfst ((#) c)) (read_string t)"
proof -
  consider "c = 0x08" | "c = 0x09" | "c = 0x0A" | "c = 0x0C" | "c = 0x0D" | "c = 0x22"
    | "c = 0x5C"
    | "c \<notin> {0x08, 0x09, 0x0A, 0x0C, 0x0D, 0x22, 0x5C}"
      "c < 0x20 \<or> is_leading_surrogate c \<or> is_trailing_surrogate c"
    | "c \<notin> {0x08, 0x09, 0x0A, 0x0C, 0x0D, 0x22, 0x5C}"
      "\<not> (c < 0x20 \<or> is_leading_surrogate c \<or> is_trailing_surrogate c)"
    by blast
  then show ?thesis
  proof cases
    case 8
    then have "quote_code_unit c = UnicodeEscape c" by (simp add: quote_code_unit_def)
    then show ?thesis by (simp only: read_string_UnicodeEscape)
  next
    case 9
    then have "quote_code_unit c = [c]" by (simp add: quote_code_unit_def)
    with 9 show ?thesis by (simp add: read_string_copy del: read_string.simps)
  qed (simp_all add: quote_code_unit_def read_string_escape unescape_def del: read_string.simps)
qed


lemma surrogate_not_special:
  assumes "is_leading_surrogate c \<or> is_trailing_surrogate c"
  shows "c \<noteq> 0x22" "c \<noteq> 0x5C" "\<not> c < 0x20"
  using assms
  by (auto simp: is_leading_surrogate_def is_trailing_surrogate_def word_le_nat_alt
      word_less_nat_alt)

lemma read_string_quote_code_points:
  "read_string (quote_code_points s @ 0x22 # rest) = Some (s, rest)"
proof (induction s rule: quote_code_points.induct)
  case 1
  show ?case by simp
next
  case (2 c)
  have "read_string (0x22 # rest) = Some ([], rest)" by simp
  then show ?case
    by (simp add: read_string_quote_code_unit del: read_string.simps)
next
  case (3 c d cs)
  show ?case
  proof (cases "is_leading_surrogate c \<and> is_trailing_surrogate d")
    case True
    with 3 have ih: "read_string (quote_code_points cs @ 0x22 # rest) = Some (cs, rest)"
      by simp
    from True have "read_string (c # d # quote_code_points cs @ 0x22 # rest) =
        map_option (apfst ((#) c)) (map_option (apfst ((#) d))
          (read_string (quote_code_points cs @ 0x22 # rest)))"
      by (simp add: read_string_copy surrogate_not_special del: read_string.simps)
    with True ih show ?thesis by simp
  next
    case False
    with 3 have ih: "read_string (quote_code_points (d # cs) @ 0x22 # rest) = Some (d # cs, rest)"
      by simp
    from False have "quote_code_points (c # d # cs) =
        quote_code_unit c @ quote_code_points (d # cs)"
      by auto
    then show ?thesis
      by (simp add: read_string_quote_code_unit ih del: read_string.simps quote_code_points.simps)
  qed
qed

lemma quote_code_unit_plain: "plain_code_unit c \<Longrightarrow> quote_code_unit c = [c]"
  by (auto simp: plain_code_unit_def quote_code_unit_def)

lemma quote_code_points_plain: "list_all plain_code_unit v \<Longrightarrow> quote_code_points v = v"
  by (induction v rule: quote_code_points.induct)
    (auto simp: quote_code_unit_plain plain_code_unit_def)

subsection \<open>One step, and runs\<close>

lemmas handler_defs =
  onChange_def setState_url_def setState_urls_def join_network_def join_network_then_def
  join_network_settled_def get_peers_def get_peers_then_def get_peers_settled_def
  componentDidMount_def

lemma step_url:
  "step a w = Some w' \<Longrightarrow>
   url (state w') = (case a of Change v \<Rightarrow> v | _ \<Rightarrow> url (state w))"
  by (cases a) (auto simp: handler_defs split: if_splits outcome.splits option.splits)

lemma step_urls:
  "step a w = Some w' \<Longrightarrow>
   urls (state w') = (case peers_responses [a] of [] \<Rightarrow> urls (state w) | d # ds \<Rightarrow> d)"
  apply (cases a)
  apply (auto simp: handler_defs split: if_splits outcome.splits option.splits)
  done

lemma step_fetches:
  "step a w = Some w' \<Longrightarrow>
   fetches w' = fetches w @ (case a of Submit \<Rightarrow> [join_request (url (state w))] | _ \<Rightarrow> [])"
  by (cases a) (auto simp: handler_defs split: if_splits outcome.splits option.splits)

lemma step_pending:
  "step a w = Some w' \<Longrightarrow>
   peers_pending w' = (case a of PeersSettled oc \<Rightarrow> False | _ \<Rightarrow> peers_pending w)"
  by (cases a) (auto simp: handler_defs split: if_splits outcome.splits option.splits)

lemma run_from_append:
  "run_from w (as @ bs) = (case run_from w as of None \<Rightarrow> None | Some w' \<Rightarrow> run_from w' bs)"
  by (induction as arbitrary: w) (auto split: option.splits)

lemma run_from_url:
  "run_from w as = Some w' \<Longrightarrow> url (state w') = tracked_input (url (state w)) as"
proof (induction as arbitrary: w)
  case Nil
  then show ?case by simp
next
  case (Cons a as)
  then obtain w1 where s: "step a w = Some w1" and r: "run_from w1 as = Some w'"
    by (auto split: option.splits)
  from step_url[OF s] Cons.IH[OF r] show ?case by (cases a) simp_all
qed

lemma run_from_fetches:
  "run_from w as = Some w' \<Longrightarrow>
   filter (\<lambda>r. path r = ''/peers'') (fetches w') = filter (\<lambda>r. path r = ''/peers'') (fetches w)"
proof (induction as arbitrary: w)
  case Nil
  then show ?case by simp
next
  case (Cons a as)
  then obtain w1 where s: "step a w = Some w1" and r: "run_from w1 as = Some w'"
    by (auto split: option.splits)
  from step_fetches[OF s] Cons.IH[OF r] show ?case
    by (cases a) (simp_all add: join_request_def)
qed

lemma run_from_joins:
  "run_from w as = Some w' \<Longrightarrow>
   length (filter (\<lambda>r. path r = ''/joinNetwork'') (fetches w')) =
   length (filter (\<lambda>r. path r = ''/joinNetwork'') (fetches w)) + count_list as Submit"
proof (induction as arbitrary: w)
  case Nil
  then show ?case by simp
next
  case (Cons a as)
  then obtain w1 where s: "step a w = Some w1" and r: "run_from w1 as = Some w'"
    by (auto split: option.splits)
  from step_fetches[OF s] Cons.IH[OF r] show ?case
    by (cases a) (simp_all add: join_request_def)
qed

lemma run_from_settled_urls:
  "\<not> peers_pending w \<Longrightarrow> run_from w as = Some w' \<Longrightarrow>
   urls (state w') = urls (state w) \<and> \<not> peers_pending w' \<and> peers_responses as = []"
proof (induction as arbitrary: w)
  case Nil
  then show ?case by simp
next
  case (Cons a as)
  then obtain w1 where s: "step a w = Some w1" and r: "run_from w1 as = Some w'"
    by (auto split: option.splits)
  from s Cons.prems(1) have na: "\<And>oc. a \<noteq> PeersSettled oc"
    by (auto split: if_splits)
  with step_pending[OF s] Cons.prems(1) have p1: "\<not> peers_pending w1"
    by (cases a) simp_all
  from na step_urls[OF s] have u1: "urls (state w1) = urls (state w)"
    by (cases a) auto
  from na have "peers_responses (a # as) = peers_responses as"
    by (cases a) auto
  with Cons.IH[OF p1 r] u1 show ?case by simp
qed

lemma peers_responses_Cons:
  "peers_responses (a # as) = peers_responses [a] @ peers_responses as"
proof (cases a)
  case (PeersSettled oc)
  then show ?thesis by (cases oc) simp_all
qed simp_all

lemma peers_responses_single: "peers_responses [a] = d # ds \<Longrightarrow> ds = []"
proof (cases a)
  case (PeersSettled oc)
  assume "peers_responses [a] = d # ds"
  with PeersSettled show ?thesis by (cases oc) (auto split: option.splits)
qed simp_all

lemma run_from_urls:
  "run_from w as = Some w' \<Longrightarrow>
   urls (state w') = (case peers_responses as of [] \<Rightarrow> urls (state w) | d # ds \<Rightarrow> last (d # ds))"
proof (induction as arbitrary: w)
  case Nil
  then show ?case by simp
next
  case (Cons a as)
  then obtain w1 where s: "step a w = Some w1" and r: "run_from w1 as = Some w'"
    by (auto split: option.splits)
  show ?case
  proof (cases "\<exists>oc. a = PeersSettled oc")
    case True
    then obtain oc where a: "a = PeersSettled oc" by blast
    with step_pending[OF s] have "\<not> peers_pending w1" by simp
    from run_from_settled_urls[OF this r]
    have "urls (state w') = urls (state w1)" and "peers_responses as = []" by simp_all
    with step_urls[OF s] peers_responses_Cons[of a as] show ?thesis
      by (cases "peers_responses [a]") (simp_all add: peers_responses_single)
  next
    case False
    then have "peers_responses (a # as) = peers_responses as" by (cases a) simp_all
    moreover from False step_urls[OF s] have "urls (state w1) = urls (state w)"
      by (cases a) simp_all
    ultimately show ?thesis using Cons.IH[OF r] by (simp split: list.splits)
  qed
qed

lemma mounted_simps:
  "state mounted = initial_state" "input_value mounted = []"
  "fetches mounted = [peers_request]" "peers_pending mounted"
  "submissions mounted = []" "console mounted = []"
  by (simp_all add: mounted_def componentDidMount_def get_peers_def constructed_def)

lemma run_from_changes:
  "vs \<noteq> [] \<Longrightarrow>
   \<exists>w'. run_from w (map Change vs) = Some w' \<and> url (state w') = last vs \<and>
        input_value w' = last vs"
proof (induction vs arbitrary: w)
  case Nil
  then show ?case by simp
next
  case (Cons v vs)
  show ?case
  proof (cases "vs = []")
    case True
    then show ?thesis by (simp add: onChange_def setState_url_def)
  next
    case False
    from Cons.IH[OF False, of "onChange v w"] False show ?thesis by simp
  qed
qed

subsection \<open>Input changes\<close>

text \<open>
  Claim C6. After every input change event the tracked \<^verbatim>\<open>url\<close> state is exactly the value
  the event carries, which is the text now in the input field; so after every non-empty
  sequence of change events, from any state, the tracked \<^verbatim>\<open>url\<close> and the text of the
  input are both the value of the last event.
\<close>

theorem change_tracks_input:
  "url (state (onChange v w)) = v \<and> input_value (onChange v w) = v \<and>
   (vs \<noteq> [] \<longrightarrow>
      map_option (\<lambda>w'. (url (state w'), input_value w')) (run_from w (map Change vs)) =
      Some (last vs, last vs))"
proof -
  have "url (state (onChange v w)) = v" "input_value (onChange v w) = v"
    by (simp_all add: onChange_def setState_url_def)
  moreover have "vs \<noteq> [] \<longrightarrow>
      map_option (\<lambda>w'. (url (state w'), input_value w')) (run_from w (map Change vs)) =
      Some (last vs, last vs)"
    using run_from_changes[of vs w] by auto
  ultimately show ?thesis by simp
qed

theorem change_tracks_input_witness:
  "url (state (onChange (js ''a'') mounted)) = js ''a'' \<and> input_value (onChange (js ''a'') mounted) = js ''a'' \<and>
   [js ''a'', js ''ab''] \<noteq> [] \<and>
   map_option (\<lambda>w'. (url (state w'), input_value w'))
     (run_from mounted (map Change [js ''a'', js ''ab''])) = Some (js ''ab'', js ''ab'')"
  using change_tracks_input[of "js ''a''" mounted "[js ''a'', js ''ab'']"] by simp

subsection \<open>Form submission\<close>

text \<open>
  Claim C3. A form submission issues exactly one request: the fetches after the
  submission are those before it followed by one \<^verbatim>\<open>POST\<close> to \<^verbatim>\<open>/joinNetwork\<close>, whose only
  header is \<^verbatim>\<open>Content-Type: application/json\<close> and whose body is the JSON text of
  \<^verbatim>\<open>{"url": v}\<close>. Here \<open>v\<close> is the tracked \<^verbatim>\<open>url\<close> state, which is the value of the last input
  change event of the run (the empty string when there was none). The body is the JSON
  text of that object: read back, it gives an object whose only member is \<^verbatim>\<open>url\<close>, with
  the value \<open>v\<close>; and when no code unit of \<open>v\<close> needs an escape, the body is \<open>v\<close> between
  \<^verbatim>\<open>{"url":"\<close> and \<^verbatim>\<open>"}\<close>. Along a run there are as many requests to \<^verbatim>\<open>/joinNetwork\<close> as
  submissions.
\<close>

theorem submit_issues_one_post:
  assumes "run as = Some w"
  shows "map_option fetches (run (as @ [Submit])) =
           Some (fetches w @
             [\<lparr>path = ''/joinNetwork'', http_method = ''POST'',
               body = Some (JSON_stringify \<lparr>url_prop = last_input_value as\<rparr>),
               headers = [(''Content-Type'', ''application/json'')]\<rparr>])
         \<and> read_url_object (JSON_stringify \<lparr>url_prop = last_input_value as\<rparr>) =
             Some (last_input_value as)
         \<and> (list_all plain_code_unit (last_input_value as) \<longrightarrow>
              JSON_stringify \<lparr>url_prop = last_input_value as\<rparr> =
              js ''{\"url\":\"'' @ last_input_value as @ js ''\"}'')
         \<and> url (state w) = last_input_value as
         \<and> length (filter (\<lambda>r. path r = ''/joinNetwork'') (fetches w)) = count_list as Submit"
proof -
  from assms have r: "run_from mounted as = Some w" by (simp add: run_def)
  from run_from_url[OF r] have u: "url (state w) = last_input_value as"
    by (simp add: last_input_value_def mounted_simps initial_state_def)
  from run_from_joins[OF r] have n:
    "length (filter (\<lambda>r. path r = ''/joinNetwork'') (fetches w)) = count_list as Submit"
    by (simp add: mounted_simps peers_request_def)
  have "run (as @ [Submit]) = Some (join_network w)"
    by (simp add: run_def run_from_append r)
  then have "map_option fetches (run (as @ [Submit])) =
      Some (fetches w @ [join_request (url (state w))])"
    by (simp add: join_network_def)
  with u have f: "map_option fetches (run (as @ [Submit])) =
           Some (fetches w @
             [\<lparr>path = ''/joinNetwork'', http_method = ''POST'',
               body = Some (JSON_stringify \<lparr>url_prop = last_input_value as\<rparr>),
               headers = [(''Content-Type'', ''application/json'')]\<rparr>])"
    by (simp add: join_request_def)
  have jt: "JSON_stringify \<lparr>url_prop = last_input_value as\<rparr> =
      js ''{\"url\":\"'' @ quote_code_points (last_input_value as) @ js ''\"}''"
    by (simp add: JSON_stringify_def QuoteJSONString_def js_def quote_code_unit_def
        is_leading_surrogate_def is_trailing_surrogate_def)
  have len: "length (js ''{\"url\":\"'') = 8" and cl: "js ''\"}'' = 0x22 # js ''}''"
    by (simp_all add: js_def)
  have rb: "read_url_object (JSON_stringify \<lparr>url_prop = last_input_value as\<rparr>) = Some (last_input_value as)"
    unfolding jt read_url_object_def
    by (simp add: len cl read_string_quote_code_points del: read_string.simps)
  have p: "list_all plain_code_unit (last_input_value as) \<longrightarrow>
              JSON_stringify \<lparr>url_prop = last_input_value as\<rparr> =
              js ''{\"url\":\"'' @ last_input_value as @ js ''\"}''"
    using quote_code_points_plain[of "last_input_value as"] jt by simp
  from f p u n rb show ?thesis by blast
qed

theorem submit_issues_one_post_witness:
  "run [Change (js ''h''), Submit, Change (js ''hi'')] =
     Some (onChange (js ''hi'') (join_network (onChange (js ''h'') mounted)))
   \<and> list_all plain_code_unit (js ''hi'')
   \<and> map_option fetches (run ([Change (js ''h''), Submit, Change (js ''hi'')] @ [Submit])) =
     Some [\<lparr>path = ''/peers'', http_method = ''GET'', body = None, headers = []\<rparr>,
           \<lparr>path = ''/joinNetwork'', http_method = ''POST'',
             body = Some (js ''{\"url\":\"h\"}''),
             headers = [(''Content-Type'', ''application/json'')]\<rparr>,
           \<lparr>path = ''/joinNetwork'', http_method = ''POST'',
             body = Some (js ''{\"url\":\"hi\"}''),
             headers = [(''Content-Type'', ''application/json'')]\<rparr>]
   \<and> read_url_object (js ''{\"url\":\"hi\"}'') = Some (js ''hi'')"
proof -
  let ?as = "[Change (js ''h''), Submit, Change (js ''hi'')]"
  let ?w = "onChange (js ''hi'') (join_network (onChange (js ''h'') mounted))"
  have h: "run ?as = Some ?w"
    by (simp add: run_def)
  have l: "last_input_value ?as = js ''hi''"
    by (simp add: last_input_value_def)
  have pl: "list_all plain_code_unit (js ''hi'')" "list_all plain_code_unit (js ''h'')"
    by (simp_all add: js_def plain_code_unit_def is_leading_surrogate_def
        is_trailing_surrogate_def)
  have t: "js ''{\"url\":\"'' @ js ''hi'' @ js ''\"}'' = js ''{\"url\":\"hi\"}''"
    "js ''{\"url\":\"'' @ js ''h'' @ js ''\"}'' = js ''{\"url\":\"h\"}''"
    by (simp_all add: js_def)
  have f: "fetches ?w =
      [\<lparr>path = ''/peers'', http_method = ''GET'', body = None, headers = []\<rparr>,
       \<lparr>path = ''/joinNetwork'', http_method = ''POST'',
         body = Some (js ''{\"url\":\"h\"}''),
         headers = [(''Content-Type'', ''application/json'')]\<rparr>]"
    by (simp add: handler_defs mounted_simps peers_request_def join_request_def
        JSON_stringify_def QuoteJSONString_def js_def quote_code_unit_def
        is_leading_surrogate_def is_trailing_surrogate_def)
  note T = submit_issues_one_post[OF h, unfolded l]
  from T have a: "map_option fetches (run (?as @ [Submit])) =
           Some (fetches ?w @
             [\<lparr>path = ''/joinNetwork'', http_method = ''POST'',
               body = Some (JSON_stringify \<lparr>url_prop = js ''hi''\<rparr>),
               headers = [(''Content-Type'', ''application/json'')]\<rparr>])"
    by (rule conjunct1)
  from T pl(1) have "JSON_stringify \<lparr>url_prop = js ''hi''\<rparr> =
      js ''{\"url\":\"'' @ js ''hi'' @ js ''\"}''"
    by blast
  with t(1) have b: "JSON_stringify \<lparr>url_prop = js ''hi''\<rparr> = js ''{\"url\":\"hi\"}''"
    by simp
  from T have "read_url_object (JSON_stringify \<lparr>url_prop = js ''hi''\<rparr>) = Some (js ''hi'')"
    by blast
  with b have c: "read_url_object (js ''{\"url\":\"hi\"}'') = Some (js ''hi'')" by simp
  from a have "map_option fetches (run (?as @ [Submit])) =
     Some [\<lparr>path = ''/peers'', http_method = ''GET'', body = None, headers = []\<rparr>,
           \<lparr>path = ''/joinNetwork'', http_method = ''POST'',
             body = Some (js ''{\"url\":\"h\"}''),
             headers = [(''Content-Type'', ''application/json'')]\<rparr>,
           \<lparr>path = ''/joinNetwork'', http_method = ''POST'',
             body = Some (js ''{\"url\":\"hi\"}''),
             headers = [(''Content-Type'', ''application/json'')]\<rparr>]"
    unfolding f b by simp
  with h pl(1) c show ?thesis by blast
qed

subsection \<open>The peer list\<close>

lemma run_peers_fetches:
  "run as = Some w \<Longrightarrow> filter (\<lambda>r. path r = ''/peers'') (fetches w) = [peers_request]"
  using run_from_fetches[of mounted as w]
  by (simp add: run_def mounted_simps peers_request_def)

lemma run_peers_response:
  assumes "run (as @ PeersSettled (Responded res) # bs) = Some w"
    and "json_body res = Some d"
  shows "urls (state w) = d"
proof -
  from assms(1) obtain w1 w2 where
    s: "step (PeersSettled (Responded res)) w1 = Some w2" and r: "run_from w2 bs = Some w"
    by (auto simp: run_def run_from_append split: option.splits)
  from step_pending[OF s] have "\<not> peers_pending w2" by simp
  from run_from_settled_urls[OF this r] have "urls (state w) = urls (state w2)" by simp
  with step_urls[OF s] assms(2) show ?thesis by simp
qed

lemma render_JArray:
  "urls s = JArray xs \<Longrightarrow>
   render s =
     Inr (Elem ''div'' []
       [Elem ''h1'' [] [Text ''Join Network''],
        Elem ''Form'' [OnSubmit_join_network]
          [Elem ''Form.Group'' []
             [Elem ''Form.Label'' [] [Text ''Please enter an url in the network to join''],
              Elem ''Form.Control'' [OnChange_setState_url] []],
           Elem ''Button'' [Type ''submit''] [Text ''JOIN'']],
        Elem ''h4'' [] [Text ''Connected Peers''],
        Nodes (map peer_entry xs)])"
  by (simp add: render_def peer_entries_def)

text \<open>
  Claim C4. Mounting the component issues one \<^verbatim>\<open>GET /peers\<close> request and nothing else, and
  no later step issues another: in every state of a run the requests to \<^verbatim>\<open>/peers\<close> are that
  single one. When its response delivers an array of strings, the component renders,
  from then on, one \<^verbatim>\<open>p\<close> element per string, holding that string, in the order of the
  array.
\<close>

theorem peers_fetched_once_and_rendered:
  assumes "run (as @ PeersSettled (Responded res) # bs) = Some w"
    and "json_body res = Some (JArray (map JString ss))"
  shows "fetches mounted = [\<lparr>path = ''/peers'', http_method = ''GET'', body = None, headers = []\<rparr>]
       \<and> filter (\<lambda>r. path r = ''/peers'') (fetches w) =
           [\<lparr>path = ''/peers'', http_method = ''GET'', body = None, headers = []\<rparr>]
       \<and> peer_entries (urls (state w)) = Inr (map (\<lambda>s. Elem ''p'' [] [Expr (JString s)]) ss)
       \<and> render (state w) =
           Inr (Elem ''div'' []
             [Elem ''h1'' [] [Text ''Join Network''],
              Elem ''Form'' [OnSubmit_join_network]
                [Elem ''Form.Group'' []
                   [Elem ''Form.Label'' []
                      [Text ''Please enter an url in the network to join''],
                    Elem ''Form.Control'' [OnChange_setState_url] []],
                 Elem ''Button'' [Type ''submit''] [Text ''JOIN'']],
              Elem ''h4'' [] [Text ''Connected Peers''],
              Nodes (map (\<lambda>s. Elem ''p'' [] [Expr (JString s)]) ss)])"
proof -
  have m: "fetches mounted = [\<lparr>path = ''/peers'', http_method = ''GET'', body = None, headers = []\<rparr>]"
    by (simp add: mounted_simps peers_request_def)
  from run_peers_fetches[OF assms(1)]
  have f: "filter (\<lambda>r. path r = ''/peers'') (fetches w) =
           [\<lparr>path = ''/peers'', http_method = ''GET'', body = None, headers = []\<rparr>]"
    by (simp add: peers_request_def)
  from run_peers_response[OF assms] have u: "urls (state w) = JArray (map JString ss)" .
  have e: "map peer_entry (map JString ss) = map (\<lambda>s. Elem ''p'' [] [Expr (JString s)]) ss"
    by (simp add: peer_entry_def)
  from u e have p: "peer_entries (urls (state w)) =
      Inr (map (\<lambda>s. Elem ''p'' [] [Expr (JString s)]) ss)"
    by (simp add: peer_entries_def)
  from render_JArray[OF u] e m f p show ?thesis by simp
qed

theorem peers_fetched_once_and_rendered_witness:
  "run ([Change (js ''x'')] @ PeersSettled (Responded \<lparr>status = 200,
      json_body = Some (JArray (map JString [js ''a'', js ''b'']))\<rparr>) # [Submit]) \<noteq> None
   \<and> map_option (\<lambda>w. peer_entries (urls (state w)))
        (run ([Change (js ''x'')] @ PeersSettled (Responded \<lparr>status = 200,
           json_body = Some (JArray (map JString [js ''a'', js ''b'']))\<rparr>) # [Submit])) =
      Some (Inr [Elem ''p'' [] [Expr (JString (js ''a''))], Elem ''p'' [] [Expr (JString (js ''b''))]])"
proof -
  let ?res = "\<lparr>status = 200, json_body = Some (JArray (map JString [js ''a'', js ''b'']))\<rparr>"
  let ?w = "join_network (get_peers_settled (Responded ?res)
              ((onChange (js ''x'') mounted)\<lparr>peers_pending := False\<rparr>))"
  have h: "run ([Change (js ''x'')] @ PeersSettled (Responded ?res) # [Submit]) = Some ?w"
    by (simp add: run_def onChange_def setState_url_def mounted_simps)
  have b: "json_body ?res = Some (JArray (map JString [js ''a'', js ''b'']))" by simp
  from peers_fetched_once_and_rendered[OF h b] h show ?thesis by simp
qed

text \<open>
  Claim C5. When the response to \<^verbatim>\<open>GET /peers\<close> delivers the empty array, the component
  renders no peer entry.
\<close>

theorem empty_peers_render_nothing:
  assumes "run (as @ PeersSettled (Responded res) # bs) = Some w"
    and "json_body res = Some (JArray [])"
  shows "peer_entries (urls (state w)) = Inr []
       \<and> render (state w) =
           Inr (Elem ''div'' []
             [Elem ''h1'' [] [Text ''Join Network''],
              Elem ''Form'' [OnSubmit_join_network]
                [Elem ''Form.Group'' []
                   [Elem ''Form.Label'' []
                      [Text ''Please enter an url in the network to join''],
                    Elem ''Form.Control'' [OnChange_setState_url] []],
                 Elem ''Button'' [Type ''submit''] [Text ''JOIN'']],
              Elem ''h4'' [] [Text ''Connected Peers''],
              Nodes []])"
proof -
  from run_peers_response[OF assms] have u: "urls (state w) = JArray []" .
  then have "peer_entries (urls (state w)) = Inr []" by (simp add: peer_entries_def)
  with render_JArray[OF u] show ?thesis by simp
qed

theorem empty_peers_render_nothing_witness:
  "map_option (\<lambda>w. peer_entries (urls (state w)))
     (run ([] @ PeersSettled (Responded \<lparr>status = 200, json_body = Some (JArray [])\<rparr>) # []))
   = Some (Inr [])"
proof -
  let ?res = "\<lparr>status = 200, json_body = Some (JArray [])\<rparr>"
  let ?w = "get_peers_settled (Responded ?res) (mounted\<lparr>peers_pending := False\<rparr>)"
  have h: "run ([] @ PeersSettled (Responded ?res) # []) = Some ?w"
    by (simp add: run_def mounted_simps)
  have b: "json_body ?res = Some (JArray [])" by simp
  from empty_peers_render_nothing[OF h b] h show ?thesis by simp
qed

subsection \<open>Completion of a submission\<close>

text \<open>
  When \<^verbatim>\<open>join_network\<close> returns, \<^verbatim>\<open>preventDefault\<close> has not been called on its event: the
  call is made by the promise callback, when the fetch is fulfilled.
\<close>

lemma join_network_event:
  "last (submissions (join_network w)) = \<lparr>defaultPrevented = False, settled = False\<rparr>"
  by (simp add: join_network_def)

lemma step_JoinSettled_Responded:
  assumes "step (JoinSettled k (Responded res)) w = Some w'"
  shows "input_value w' = []" "defaultPrevented (submissions w' ! k)"
    "state w' = state w" "fetches w' = fetches w" "console w' = console w"
  using assms
  by (auto simp: join_network_settled_def join_network_then_def split: if_splits)

lemma step_JoinSettled_Rejected:
  assumes "step (JoinSettled k Rejected) w = Some w'"
  shows "w' = w\<lparr>submissions := (submissions w)[k := (submissions w ! k)\<lparr>settled := True\<rparr>]\<rparr>"
  using assms by (auto simp: join_network_settled_def split: if_splits)

lemma tracked_input_no_change:
  "list_all (\<lambda>a. \<not> is_change a) as \<Longrightarrow> tracked_input v as = v"
  by (induction v as rule: tracked_input.induct) simp_all

text \<open>
  Claim C1, as amended. When the fetch of a submission is fulfilled with a response, of
  any status, the completion callback resets the form, which empties the visible input.
  When the fetch is rejected no callback runs and the input keeps its text.
\<close>

theorem join_completion_resets_form:
  "(step (JoinSettled k (Responded res)) w = Some w1 \<longrightarrow> input_value w1 = [])
   \<and> (step (JoinSettled k Rejected) w = Some w2 \<longrightarrow> input_value w2 = input_value w)"
proof -
  have "step (JoinSettled k Rejected) w = Some w2 \<longrightarrow> input_value w2 = input_value w"
    using step_JoinSettled_Rejected[of k w w2] by auto
  then show ?thesis using step_JoinSettled_Responded(1)[of k res w w1] by blast
qed

theorem join_completion_resets_form_witness:
  "step (JoinSettled 0 (Responded \<lparr>status = 500, json_body = None\<rparr>))
     (join_network (onChange (js ''x'') mounted)) =
     Some ((join_network (onChange (js ''x'') mounted))
       \<lparr>submissions := [\<lparr>defaultPrevented = True, settled = True\<rparr>], input_value := []\<rparr>)
   \<and> step (JoinSettled 0 Rejected) (join_network (onChange (js ''x'') mounted)) =
     Some ((join_network (onChange (js ''x'') mounted))
       \<lparr>submissions := [\<lparr>defaultPrevented = False, settled = True\<rparr>]\<rparr>)
   \<and> input_value (join_network (onChange (js ''x'') mounted)) = js ''x''
   \<and> input_value ((join_network (onChange (js ''x'') mounted))
       \<lparr>submissions := [\<lparr>defaultPrevented = False, settled = True\<rparr>]\<rparr>) = js ''x''
   \<and> input_value ((join_network (onChange (js ''x'') mounted))
       \<lparr>submissions := [\<lparr>defaultPrevented = True, settled = True\<rparr>], input_value := []\<rparr>) = []"
proof -
  let ?w = "join_network (onChange (js ''x'') mounted)"
  let ?res = "\<lparr>status = 500, json_body = None\<rparr>"
  let ?w1 = "?w\<lparr>submissions := [\<lparr>defaultPrevented = True, settled = True\<rparr>], input_value := []\<rparr>"
  let ?w2 = "?w\<lparr>submissions := [\<lparr>defaultPrevented = False, settled = True\<rparr>]\<rparr>"
  have s: "submissions ?w = [\<lparr>defaultPrevented = False, settled = False\<rparr>]"
    by (simp add: handler_defs mounted_simps)
  have h1: "step (JoinSettled 0 (Responded ?res)) ?w = Some ?w1"
    by (simp add: s join_network_settled_def join_network_then_def)
  have h2: "step (JoinSettled 0 Rejected) ?w = Some ?w2"
    by (simp add: s join_network_settled_def)
  have i: "input_value ?w = js ''x''" by (simp add: handler_defs)
  from join_completion_resets_form[of 0 ?res ?w ?w1 ?w2] h1 h2
  have "input_value ?w2 = input_value ?w" "input_value ?w1 = []"
    by blast+
  with i h1 h2 show ?thesis by simp
qed

theorem rejected_join_counterexample:
  "map_option input_value (run [Change (js ''x''), Submit, JoinSettled 0 Rejected]) =
     Some (js ''x'')
   \<and> js ''x'' \<noteq> []
   \<and> map_option submissions (run [Change (js ''x''), Submit, JoinSettled 0 Rejected]) =
       Some [\<lparr>defaultPrevented = False, settled = True\<rparr>]"
  by (simp add: run_def handler_defs mounted_simps js_def)

text \<open>
  Claim C2, as amended. A form submission and the completion of one leave the tracked
  \<^verbatim>\<open>url\<close> state as it is: along every run without an input change event the \<^verbatim>\<open>url\<close> state
  keeps its value, whatever is submitted and however the fetches settle.
\<close>

theorem submission_keeps_url:
  "run_from w as = Some w' \<Longrightarrow> list_all (\<lambda>a. \<not> is_change a) as \<Longrightarrow>
   url (state w') = url (state w)"
  using run_from_url[of w as w'] tracked_input_no_change[of as "url (state w)"] by simp

theorem submission_keeps_url_witness:
  "run_from (onChange (js ''x'') mounted)
     [Submit, JoinSettled 0 (Responded \<lparr>status = 200, json_body = None\<rparr>)] \<noteq> None
   \<and> map_option state (run_from (onChange (js ''x'') mounted)
       [Submit, JoinSettled 0 (Responded \<lparr>status = 200, json_body = None\<rparr>)]) =
     Some \<lparr>urls = JArray [], url = js ''x''\<rparr>"
proof -
  let ?res = "\<lparr>status = 200, json_body = None\<rparr>"
  let ?as = "[Submit, JoinSettled 0 (Responded ?res)]"
  let ?w = "join_network (onChange (js ''x'') mounted)"
  let ?w' = "join_network_then 0
      (?w\<lparr>submissions := (submissions ?w)[0 := (submissions ?w ! 0)\<lparr>settled := True\<rparr>]\<rparr>)"
  have s: "submissions ?w = [\<lparr>defaultPrevented = False, settled = False\<rparr>]"
    by (simp add: handler_defs mounted_simps)
  have h: "run_from (onChange (js ''x'') mounted) ?as = Some ?w'"
    by (simp add: s join_network_settled_def)
  have n: "list_all (\<lambda>a. \<not> is_change a) ?as" by simp
  have u: "urls (state ?w') = JArray []"
    by (simp add: handler_defs mounted_simps initial_state_def)
  have x: "url (state (onChange (js ''x'') mounted)) = js ''x''"
    by (simp add: handler_defs)
  from submission_keeps_url[OF h n] x have "url (state ?w') = js ''x''" by simp
  with u have "state ?w' = \<lparr>urls = JArray [], url = js ''x''\<rparr>"
    by (cases "state ?w'") simp
  with h show ?thesis by simp
qed

theorem submission_resets_url_counterexample:
  "map_option state
     (run [Change (js ''x''), Submit, JoinSettled 0 (Responded \<lparr>status = 200, json_body = None\<rparr>)]) =
     Some \<lparr>urls = JArray [], url = js ''x''\<rparr>
   \<and> map_option input_value
     (run [Change (js ''x''), Submit, JoinSettled 0 (Responded \<lparr>status = 200, json_body = None\<rparr>)]) =
     Some []"
  by (simp add: run_def handler_defs mounted_simps initial_state_def)

subsection \<open>Where \<^verbatim>\<open>urls\<close> comes from\<close>

lemma run_urls:
  "run as = Some w \<Longrightarrow> urls (state w) = most_recent_response as"
  using run_from_urls[of mounted as w]
  by (simp add: run_def most_recent_response_def mounted_simps initial_state_def
      split: list.splits)

lemma step_JoinSettled_state:
  "step (JoinSettled k oc) w = Some w' \<Longrightarrow> state w' = state w"
  by (cases oc)
    (auto simp: join_network_settled_def join_network_then_def split: if_splits)

text \<open>
  Claim C7. In every state of a run, \<^verbatim>\<open>urls\<close> is the value delivered by the most recent
  response to \<^verbatim>\<open>GET /peers\<close>, and the initial empty list while no response has delivered
  one. A form submission and the completion of one leave \<^verbatim>\<open>urls\<close> as it is, so the list
  does not show a peer that has just been joined.
\<close>

theorem urls_is_most_recent_response:
  "(run as = Some w \<longrightarrow> urls (state w) = most_recent_response as)
   \<and> urls (state (join_network w0)) = urls (state w0)
   \<and> (step (JoinSettled k oc) w0 = Some w1 \<longrightarrow> urls (state w1) = urls (state w0))"
  using run_urls[of as w] step_JoinSettled_state[of k oc w0 w1]
  by (simp add: join_network_def)

theorem urls_is_most_recent_response_witness:
  "run [PeersSettled (Responded \<lparr>status = 200, json_body = Some (JArray [JString (js ''a'')])\<rparr>),
        Change (js ''b''), Submit] =
     Some (join_network (onChange (js ''b'') (get_peers_then (JArray [JString (js ''a'')])
       (mounted\<lparr>peers_pending := False\<rparr>))))
   \<and> urls (state (join_network (onChange (js ''b'') (get_peers_then (JArray [JString (js ''a'')])
       (mounted\<lparr>peers_pending := False\<rparr>))))) = JArray [JString (js ''a'')]
   \<and> step (JoinSettled 0 (Responded \<lparr>status = 200, json_body = None\<rparr>))
       (join_network (onChange (js ''b'') (get_peers_then (JArray [JString (js ''a'')])
         (mounted\<lparr>peers_pending := False\<rparr>)))) =
     Some ((join_network (onChange (js ''b'') (get_peers_then (JArray [JString (js ''a'')])
         (mounted\<lparr>peers_pending := False\<rparr>))))
       \<lparr>submissions := [\<lparr>defaultPrevented = True, settled = True\<rparr>], input_value := []\<rparr>)
   \<and> urls (state ((join_network (onChange (js ''b'') (get_peers_then (JArray [JString (js ''a'')])
         (mounted\<lparr>peers_pending := False\<rparr>))))
       \<lparr>submissions := [\<lparr>defaultPrevented = True, settled = True\<rparr>], input_value := []\<rparr>)) =
     JArray [JString (js ''a'')]"
proof -
  let ?res = "\<lparr>status = 200, json_body = Some (JArray [JString (js ''a'')])\<rparr>"
  let ?r = "\<lparr>status = 200, json_body = None\<rparr>"
  let ?as = "[PeersSettled (Responded ?res), Change (js ''b''), Submit]"
  let ?w = "join_network (onChange (js ''b'') (get_peers_then (JArray [JString (js ''a'')])
       (mounted\<lparr>peers_pending := False\<rparr>)))"
  let ?w1 = "?w\<lparr>submissions := [\<lparr>defaultPrevented = True, settled = True\<rparr>], input_value := []\<rparr>"
  have h: "run ?as = Some ?w"
    by (simp add: run_def mounted_simps get_peers_settled_def)
  have s: "submissions ?w = [\<lparr>defaultPrevented = False, settled = False\<rparr>]"
    by (simp add: handler_defs mounted_simps)
  have h1: "step (JoinSettled 0 (Responded ?r)) ?w = Some ?w1"
    by (simp add: s join_network_settled_def join_network_then_def)
  have m: "most_recent_response ?as = JArray [JString (js ''a'')]"
    by (simp add: most_recent_response_def)
  from urls_is_most_recent_response[of ?as ?w ?w 0 "Responded ?r" ?w1] h h1 m
  have "urls (state ?w) = JArray [JString (js ''a'')]" "urls (state ?w1) = urls (state ?w)"
    by simp_all
  with h h1 show ?thesis by simp
qed

text \<open>
  Claim C10, as amended. The component starts in the state \<^verbatim>\<open>urls = []\<close>, \<^verbatim>\<open>url = ''\<close>, and
  its first render shows no peer entry. While no response to \<^verbatim>\<open>GET /peers\<close> has delivered
  a value, \<^verbatim>\<open>urls\<close> is still the empty list and no peer entry is rendered, while \<^verbatim>\<open>url\<close>
  is the value of the last input change event. In every state of a run, \<^verbatim>\<open>urls\<close> is the initial empty list
  or a value that a response to \<^verbatim>\<open>GET /peers\<close> has delivered.
\<close>

theorem initial_state_and_urls_origin:
  "state constructed = \<lparr>urls = JArray [], url = []\<rparr>
   \<and> state mounted = \<lparr>urls = JArray [], url = []\<rparr>
   \<and> peer_entries (urls (state constructed)) = Inr []
   \<and> (run as = Some w \<longrightarrow>
        (peers_responses as = [] \<longrightarrow>
           urls (state w) = JArray [] \<and> peer_entries (urls (state w)) = Inr [])
        \<and> url (state w) = last_input_value as
        \<and> (urls (state w) = JArray [] \<or> urls (state w) \<in> set (peers_responses as)))"
proof -
  have i: "state constructed = \<lparr>urls = JArray [], url = []\<rparr>"
    "state mounted = \<lparr>urls = JArray [], url = []\<rparr>"
    "peer_entries (urls (state constructed)) = Inr []"
    by (simp_all add: constructed_def mounted_simps initial_state_def peer_entries_def)
  have "run as = Some w \<longrightarrow>
        (peers_responses as = [] \<longrightarrow>
           urls (state w) = JArray [] \<and> peer_entries (urls (state w)) = Inr [])
        \<and> url (state w) = last_input_value as
        \<and> (urls (state w) = JArray [] \<or> urls (state w) \<in> set (peers_responses as))"
  proof
    assume r: "run as = Some w"
    from r run_from_url[of mounted as w] have "url (state w) = last_input_value as"
      by (simp add: run_def last_input_value_def mounted_simps initial_state_def)
    with run_urls[OF r] show
      "(peers_responses as = [] \<longrightarrow>
           urls (state w) = JArray [] \<and> peer_entries (urls (state w)) = Inr [])
        \<and> url (state w) = last_input_value as
        \<and> (urls (state w) = JArray [] \<or> urls (state w) \<in> set (peers_responses as))"
      by (cases "peers_responses as")
        (auto simp: most_recent_response_def peer_entries_def)
  qed
  with i show ?thesis by simp
qed

theorem initial_state_and_urls_origin_witness:
  "run [Change (js ''x''), PeersSettled Rejected] =
     Some ((onChange (js ''x'') mounted)\<lparr>peers_pending := False\<rparr>)
   \<and> peers_responses [Change (js ''x''), PeersSettled Rejected] = []
   \<and> urls (state ((onChange (js ''x'') mounted)\<lparr>peers_pending := False\<rparr>)) = JArray []
   \<and> peer_entries (urls (state ((onChange (js ''x'') mounted)\<lparr>peers_pending := False\<rparr>))) = Inr []"
proof -
  let ?as = "[Change (js ''x''), PeersSettled Rejected]"
  let ?w = "(onChange (js ''x'') mounted)\<lparr>peers_pending := False\<rparr>"
  have p: "peers_pending (onChange (js ''x'') mounted)"
    by (simp add: handler_defs mounted_simps)
  have h: "run ?as = Some ?w"
    by (simp add: run_def p get_peers_settled_def)
  have n: "peers_responses ?as = []" by simp
  from initial_state_and_urls_origin[of ?as ?w] h n show ?thesis by blast
qed

theorem typed_before_response_counterexample:
  "map_option state (run [Change (js ''x'')]) = Some \<lparr>urls = JArray [], url = js ''x''\<rparr>
   \<and> map_option peers_pending (run [Change (js ''x'')]) = Some True
   \<and> peers_responses [Change (js ''x'')] = []"
  by (simp add: run_def handler_defs mounted_simps initial_state_def)

subsection \<open>Submitting again\<close>

lemma run_from_submit_complete:
  "run_from w [Submit, JoinSettled (length (submissions w)) (Responded res)] =
     Some (w\<lparr>fetches := fetches w @ [join_request (url (state w))],
             submissions := submissions w @ [\<lparr>defaultPrevented = True, settled = True\<rparr>],
             input_value := []\<rparr>)"
  by (simp add: join_network_def join_network_settled_def join_network_then_def)

text \<open>
  Claim C9. The completion of a submission leaves the tracked \<^verbatim>\<open>url\<close> state as it is;
  when the fetch is fulfilled it empties the visible input only. So from any state, a
  submission, its completion and a second submission with no input change between them
  issue two \<^verbatim>\<open>POST\<close> requests to \<^verbatim>\<open>/joinNetwork\<close> with the same body, although the input is
  empty when the form is submitted again: both bodies are the JSON text of \<^verbatim>\<open>{"url": v}\<close>
  for the \<^verbatim>\<open>url\<close> state \<open>v\<close> at the first submission, and read back they give \<open>v\<close>.
\<close>

theorem resubmission_sends_same_url:
  "(step (JoinSettled k oc) w0 = Some w1 \<longrightarrow> url (state w1) = url (state w0))
   \<and> map_option input_value
        (run_from w [Submit, JoinSettled (length (submissions w)) (Responded res)]) = Some []
   \<and> map_option fetches
        (run_from w [Submit, JoinSettled (length (submissions w)) (Responded res), Submit]) =
      Some (fetches w @
        [\<lparr>path = ''/joinNetwork'', http_method = ''POST'',
          body = Some (JSON_stringify \<lparr>url_prop = url (state w)\<rparr>),
          headers = [(''Content-Type'', ''application/json'')]\<rparr>,
         \<lparr>path = ''/joinNetwork'', http_method = ''POST'',
          body = Some (JSON_stringify \<lparr>url_prop = url (state w)\<rparr>),
          headers = [(''Content-Type'', ''application/json'')]\<rparr>])
   \<and> read_url_object (JSON_stringify \<lparr>url_prop = url (state w)\<rparr>) = Some (url (state w))"
proof -
  have "run_from w ([Submit, JoinSettled (length (submissions w)) (Responded res)] @ [Submit]) =
      Some (join_network (w\<lparr>fetches := fetches w @ [join_request (url (state w))],
             submissions := submissions w @ [\<lparr>defaultPrevented = True, settled = True\<rparr>],
             input_value := []\<rparr>))"
    unfolding run_from_append run_from_submit_complete by simp
  then have "map_option fetches
        (run_from w [Submit, JoinSettled (length (submissions w)) (Responded res), Submit]) =
      Some (fetches w @ [join_request (url (state w)), join_request (url (state w))])"
    by (simp add: join_network_def)
  then have f: "map_option fetches
        (run_from w [Submit, JoinSettled (length (submissions w)) (Responded res), Submit]) =
      Some (fetches w @
        [\<lparr>path = ''/joinNetwork'', http_method = ''POST'',
          body = Some (JSON_stringify \<lparr>url_prop = url (state w)\<rparr>),
          headers = [(''Content-Type'', ''application/json'')]\<rparr>,
         \<lparr>path = ''/joinNetwork'', http_method = ''POST'',
          body = Some (JSON_stringify \<lparr>url_prop = url (state w)\<rparr>),
          headers = [(''Content-Type'', ''application/json'')]\<rparr>])"
    by (simp add: join_request_def)
  have i: "map_option input_value
        (run_from w [Submit, JoinSettled (length (submissions w)) (Responded res)]) = Some []"
    unfolding run_from_submit_complete by simp
  have u: "step (JoinSettled k oc) w0 = Some w1 \<longrightarrow> url (state w1) = url (state w0)"
    using step_JoinSettled_state[of k oc w0 w1] by simp
  have jt: "JSON_stringify \<lparr>url_prop = url (state w)\<rparr> =
      js ''{\"url\":\"'' @ quote_code_points (url (state w)) @ js ''\"}''"
    by (simp add: JSON_stringify_def QuoteJSONString_def js_def quote_code_unit_def
        is_leading_surrogate_def is_trailing_surrogate_def)
  have len: "length (js ''{\"url\":\"'') = 8" and cl: "js ''\"}'' = 0x22 # js ''}''"
    by (simp_all add: js_def)
  have rb: "read_url_object (JSON_stringify \<lparr>url_prop = url (state w)\<rparr>) = Some (url (state w))"
    unfolding jt read_url_object_def
    by (simp add: len cl read_string_quote_code_points del: read_string.simps)
  from f i u rb show ?thesis by blast
qed

theorem resubmission_sends_same_url_witness:
  "step (JoinSettled 0 (Responded \<lparr>status = 200, json_body = None\<rparr>))
     (join_network (onChange (js ''x'') mounted)) =
     Some ((join_network (onChange (js ''x'') mounted))
       \<lparr>submissions := [\<lparr>defaultPrevented = True, settled = True\<rparr>], input_value := []\<rparr>)
   \<and> url (state ((join_network (onChange (js ''x'') mounted))
       \<lparr>submissions := [\<lparr>defaultPrevented = True, settled = True\<rparr>], input_value := []\<rparr>)) =
     js ''x''
   \<and> map_option fetches (run_from (onChange (js ''x'') mounted)
        [Submit, JoinSettled 0 (Responded \<lparr>status = 200, json_body = None\<rparr>), Submit]) =
      Some [\<lparr>path = ''/peers'', http_method = ''GET'', body = None, headers = []\<rparr>,
            \<lparr>path = ''/joinNetwork'', http_method = ''POST'',
              body = Some (js ''{\"url\":\"x\"}''),
              headers = [(''Content-Type'', ''application/json'')]\<rparr>,
            \<lparr>path = ''/joinNetwork'', http_method = ''POST'',
              body = Some (js ''{\"url\":\"x\"}''),
              headers = [(''Content-Type'', ''application/json'')]\<rparr>]
   \<and> read_url_object (js ''{\"url\":\"x\"}'') = Some (js ''x'')"
proof -
  let ?r = "\<lparr>status = 200, json_body = None\<rparr>"
  let ?w = "join_network (onChange (js ''x'') mounted)"
  let ?w1 = "?w\<lparr>submissions := [\<lparr>defaultPrevented = True, settled = True\<rparr>], input_value := []\<rparr>"
  have s: "submissions ?w = [\<lparr>defaultPrevented = False, settled = False\<rparr>]"
    by (simp add: handler_defs mounted_simps)
  have h1: "step (JoinSettled 0 (Responded ?r)) ?w = Some ?w1"
    by (simp add: s join_network_settled_def join_network_then_def)
  have u: "url (state ?w) = js ''x''" "url (state (onChange (js ''x'') mounted)) = js ''x''"
    "fetches (onChange (js ''x'') mounted) =
       [\<lparr>path = ''/peers'', http_method = ''GET'', body = None, headers = []\<rparr>]"
    "length (submissions (onChange (js ''x'') mounted)) = 0"
    by (simp_all add: handler_defs mounted_simps peers_request_def)
  have t: "JSON_stringify \<lparr>url_prop = js ''x''\<rparr> = js ''{\"url\":\"x\"}''"
    by (simp add: JSON_stringify_def QuoteJSONString_def js_def quote_code_unit_def
        is_leading_surrogate_def is_trailing_surrogate_def)
  have e: "map_option fetches (run_from (onChange (js ''x'') mounted)
        [Submit, JoinSettled 0 (Responded ?r), Submit]) =
      Some [\<lparr>path = ''/peers'', http_method = ''GET'', body = None, headers = []\<rparr>,
            \<lparr>path = ''/joinNetwork'', http_method = ''POST'',
              body = Some (js ''{\"url\":\"x\"}''),
              headers = [(''Content-Type'', ''application/json'')]\<rparr>,
            \<lparr>path = ''/joinNetwork'', http_method = ''POST'',
              body = Some (js ''{\"url\":\"x\"}''),
              headers = [(''Content-Type'', ''application/json'')]\<rparr>]"
    by (simp add: handler_defs mounted_simps peers_request_def join_request_def t)
  from resubmission_sends_same_url[of 0 "Responded ?r" ?w ?w1 "onChange (js ''x'') mounted" ?r]
    h1 u t e
  show ?thesis by simp
qed

subsection \<open>Failures\<close>

lemma step_PeersSettled_no_data:
  assumes "oc = Rejected \<or> (\<exists>res. oc = Responded res \<and> json_body res = None)"
    and "step (PeersSettled oc) w = Some w'"
  shows "w' = w\<lparr>peers_pending := False\<rparr>"
  using assms by (auto simp: get_peers_settled_def split: if_splits)

text \<open>
  Claim C8, as amended. After a rejected fetch or a body that is not JSON on
  \<^verbatim>\<open>GET /peers\<close>, and after a rejected fetch on \<^verbatim>\<open>POST /joinNetwork\<close>, no error-handling
  branch runs and nothing of the component changes: its state, what it displays and what
  it logs stay as they are. The status of a response is never
  read: a response is handled as a response of any other status with the same body
  would be, so a non-2xx response to \<^verbatim>\<open>GET /peers\<close> whose body is JSON is stored in
  \<^verbatim>\<open>urls\<close>, and a non-2xx response to \<^verbatim>\<open>POST /joinNetwork\<close> runs the completion callback.
  No outcome of \<^verbatim>\<open>POST /joinNetwork\<close> changes the component state.
\<close>

theorem failures_run_no_callback:
  "(step (PeersSettled Rejected) w = Some w1 \<longrightarrow>
      state w1 = state w \<and> view w1 = view w \<and> console w1 = console w)
   \<and> (json_body res = None \<longrightarrow> step (PeersSettled (Responded res)) w = Some w2 \<longrightarrow>
      state w2 = state w \<and> view w2 = view w \<and> console w2 = console w)
   \<and> (step (JoinSettled k Rejected) w = Some w3 \<longrightarrow>
      state w3 = state w \<and> view w3 = view w \<and> console w3 = console w)
   \<and> (step (JoinSettled k oc) w = Some w4 \<longrightarrow> state w4 = state w)
   \<and> step (PeersSettled (Responded (res\<lparr>status := n\<rparr>))) w =
       step (PeersSettled (Responded res)) w
   \<and> step (JoinSettled k (Responded (res\<lparr>status := n\<rparr>))) w =
       step (JoinSettled k (Responded res)) w"
proof -
  have a: "step (PeersSettled Rejected) w = Some w1 \<longrightarrow>
      state w1 = state w \<and> view w1 = view w \<and> console w1 = console w"
    using step_PeersSettled_no_data[of Rejected w w1] by (auto simp: view_def)
  have b: "json_body res = None \<longrightarrow> step (PeersSettled (Responded res)) w = Some w2 \<longrightarrow>
      state w2 = state w \<and> view w2 = view w \<and> console w2 = console w"
    using step_PeersSettled_no_data[of "Responded res" w w2] by (auto simp: view_def)
  have c: "step (JoinSettled k Rejected) w = Some w3 \<longrightarrow>
      state w3 = state w \<and> view w3 = view w \<and> console w3 = console w"
    using step_JoinSettled_Rejected[of k w w3] by (auto simp: view_def)
  have d: "step (JoinSettled k oc) w = Some w4 \<longrightarrow> state w4 = state w"
    using step_JoinSettled_state[of k oc w w4] by simp
  have e: "step (PeersSettled (Responded (res\<lparr>status := n\<rparr>))) w =
       step (PeersSettled (Responded res)) w"
    by (simp add: get_peers_settled_def)
  have f: "step (JoinSettled k (Responded (res\<lparr>status := n\<rparr>))) w =
       step (JoinSettled k (Responded res)) w"
    by (simp add: join_network_settled_def)
  from a b c d e f show ?thesis by blast
qed

theorem failures_run_no_callback_witness:
  "step (PeersSettled Rejected) (join_network (onChange (js ''x'') mounted)) =
     Some ((join_network (onChange (js ''x'') mounted))\<lparr>peers_pending := False\<rparr>)
   \<and> json_body \<lparr>status = 200, json_body = None\<rparr> = None
   \<and> step (PeersSettled (Responded \<lparr>status = 200, json_body = None\<rparr>))
       (join_network (onChange (js ''x'') mounted)) =
     Some ((join_network (onChange (js ''x'') mounted))\<lparr>peers_pending := False\<rparr>)
   \<and> step (JoinSettled 0 Rejected) (join_network (onChange (js ''x'') mounted)) =
     Some ((join_network (onChange (js ''x'') mounted))
       \<lparr>submissions := [\<lparr>defaultPrevented = False, settled = True\<rparr>]\<rparr>)
   \<and> view ((join_network (onChange (js ''x'') mounted))\<lparr>peers_pending := False\<rparr>) =
       view (join_network (onChange (js ''x'') mounted))
   \<and> view ((join_network (onChange (js ''x'') mounted))
       \<lparr>submissions := [\<lparr>defaultPrevented = False, settled = True\<rparr>]\<rparr>) =
       view (join_network (onChange (js ''x'') mounted))
   \<and> state ((join_network (onChange (js ''x'') mounted))
       \<lparr>submissions := [\<lparr>defaultPrevented = False, settled = True\<rparr>]\<rparr>) =
       state (join_network (onChange (js ''x'') mounted))"
proof -
  let ?r = "\<lparr>status = 200, json_body = None\<rparr>"
  let ?w = "join_network (onChange (js ''x'') mounted)"
  let ?w1 = "?w\<lparr>peers_pending := False\<rparr>"
  let ?w3 = "?w\<lparr>submissions := [\<lparr>defaultPrevented = False, settled = True\<rparr>]\<rparr>"
  have s: "submissions ?w = [\<lparr>defaultPrevented = False, settled = False\<rparr>]"
    and p: "peers_pending ?w"
    by (simp_all add: handler_defs mounted_simps)
  have h1: "step (PeersSettled Rejected) ?w = Some ?w1"
    by (simp add: p get_peers_settled_def)
  have h2: "step (PeersSettled (Responded ?r)) ?w = Some ?w1"
    by (simp add: p get_peers_settled_def)
  have h3: "step (JoinSettled 0 Rejected) ?w = Some ?w3"
    by (simp add: s join_network_settled_def)
  have b: "json_body ?r = None" by simp
  from failures_run_no_callback[of ?w ?w1 ?r ?w1 0 ?w3 Rejected ?w3 200] h1 h2 h3 b
  have "view ?w1 = view ?w" "view ?w3 = view ?w" "state ?w3 = state ?w"
    by blast+
  with h1 h2 h3 b show ?thesis by blast
qed

theorem non_2xx_peers_counterexample:
  "\<not> ok \<lparr>status = 500, json_body = Some (JArray [JString (js ''x'')])\<rparr>
   \<and> state mounted = \<lparr>urls = JArray [], url = []\<rparr>
   \<and> map_option state
       (step (PeersSettled (Responded \<lparr>status = 500, json_body = Some (JArray [JString (js ''x'')])\<rparr>))
          mounted) =
     Some \<lparr>urls = JArray [JString (js ''x'')], url = []\<rparr>"
  by (simp add: ok_def handler_defs mounted_simps initial_state_def)

end
